theory Spec2Isabelle
  imports Main
begin

section \<open>Exceptions\<close>

text \<open>
  The exception classes that \<^verbatim>\<open>shared/retry_config.py\<close> names or defines, the
  built-in classes above and below them, the two classes of tenacity that its retry loop
  treats specially, and \<open>Subclass name base\<close> for any further class derived (by single
  inheritance) from one of them. \<open>RateLimitError\<close>, \<open>APIConnectionError\<close> and
  \<open>APITimeoutError\<close> are declared in the module as direct subclasses of \<open>Exception\<close>.
\<close>

datatype exc_class =
    BaseException
  | KeyboardInterrupt
  | Exception
  | ValueError
  | ImportError
  | ModuleNotFoundError
  | OSError
  | ConnectionError
  | BrokenPipeError
  | ConnectionAbortedError
  | ConnectionRefusedError
  | ConnectionResetError
  | TimeoutError
  | RateLimitError
  | APIConnectionError
  | APITimeoutError
  | TryAgain
  | RetryError
  | Subclass string exc_class

text \<open>The method resolution order of a class: the class itself, then its ancestors.\<close>

fun mro :: "exc_class \<Rightarrow> exc_class list" where
  "mro BaseException = [BaseException]"
| "mro KeyboardInterrupt = [KeyboardInterrupt, BaseException]"
| "mro Exception = [Exception, BaseException]"
| "mro ValueError = [ValueError, Exception, BaseException]"
| "mro ImportError = [ImportError, Exception, BaseException]"
| "mro ModuleNotFoundError = [ModuleNotFoundError, ImportError, Exception, BaseException]"
| "mro OSError = [OSError, Exception, BaseException]"
| "mro ConnectionError = [ConnectionError, OSError, Exception, BaseException]"
| "mro BrokenPipeError = [BrokenPipeError, ConnectionError, OSError, Exception, BaseException]"
| "mro ConnectionAbortedError =
     [ConnectionAbortedError, ConnectionError, OSError, Exception, BaseException]"
| "mro ConnectionRefusedError =
     [ConnectionRefusedError, ConnectionError, OSError, Exception, BaseException]"
| "mro ConnectionResetError =
     [ConnectionResetError, ConnectionError, OSError, Exception, BaseException]"
| "mro TimeoutError = [TimeoutError, OSError, Exception, BaseException]"
| "mro RateLimitError = [RateLimitError, Exception, BaseException]"
| "mro APIConnectionError = [APIConnectionError, Exception, BaseException]"
| "mro APITimeoutError = [APITimeoutError, Exception, BaseException]"
| "mro TryAgain = [TryAgain, Exception, BaseException]"
| "mro RetryError = [RetryError, Exception, BaseException]"
| "mro (Subclass name base) = Subclass name base # mro base"

text \<open>An exception object: its class and its message.\<close>

record exn =
  exn_class :: exc_class
  exn_args :: string

definition issubclass :: "exc_class \<Rightarrow> exc_class \<Rightarrow> bool" where
  "issubclass c d = (d \<in> set (mro c))"

text \<open>\<^verbatim>\<open>isinstance(e, (T1, ..., Tn))\<close> with a tuple of classes.\<close>

definition isinstance :: "exn \<Rightarrow> exc_class list \<Rightarrow> bool" where
  "isinstance e exception_types = list_ex (issubclass (exn_class e)) exception_types"

section \<open>The strategies of tenacity that the module configures\<close>

text \<open>
  The retry machinery itself is the tenacity library's (release 8.2); the definitions of
  this section and of the section on the retry loop transcribe the methods of tenacity
  that the module's decorators run. \<^verbatim>\<open>retry_config.py\<close> builds every decorator as
  \<^verbatim>\<open>retry(stop=stop_after_attempt(..), wait=wait_exponential(..),
  retry=retry_if_exception_type(..), before_sleep=before_sleep_log(..), reraise=True)\<close>.
  The record holds the arguments of one such call. Times are whole seconds and the
  multiplier is an integer, as at every call in the module. Python's integers are
  unbounded, but tenacity keeps \<^verbatim>\<open>float(min)\<close> and \<^verbatim>\<open>float(max)\<close>: the
  conversion changes no integer of magnitude up to \<open>2 ^ 53\<close>, rounds larger ones and
  raises \<^verbatim>\<open>OverflowError\<close> from about \<open>1.8e308\<close>. The integers of the record are
  therefore the code's values only while \<open>min\<close> and \<open>max\<close> stay within \<open>2 ^ 53\<close>,
  as all the presets' constants do; statements about arbitrary arguments say so.
  \<^verbatim>\<open>wait_exponential\<close> is never given \<open>exp_base\<close>, whose default is 2.
\<close>

record retrying =
  max_attempt_number :: int
  wait_multiplier :: int
  wait_min :: int
  wait_max :: int
  wait_exp_base :: int
  exception_types :: "exc_class list"
  reraise :: bool

text \<open>
  \<^verbatim>\<open>stop_after_attempt.__call__\<close>:
  \<^verbatim>\<open>return retry_state.attempt_number >= self.max_attempt_number\<close>.
\<close>

definition stop_after_attempt :: "retrying \<Rightarrow> nat \<Rightarrow> bool" where
  "stop_after_attempt r attempt_number = (int attempt_number \<ge> max_attempt_number r)"

text \<open>
  \<^verbatim>\<open>wait_exponential.__call__\<close>:
  \<^verbatim>\<open>exp = self.exp_base ** (retry_state.attempt_number - 1)
  result = self.multiplier * exp
  return max(max(0, self.min), min(result, self.max))\<close>
  (the \<^verbatim>\<open>OverflowError\<close> handler around the first two lines is unreachable on
  integers; Python compares the integer \<open>result\<close> with the float \<open>max\<close> exactly). The
  attempt number starts at 1 and is only ever incremented.
\<close>

definition wait_exponential :: "retrying \<Rightarrow> nat \<Rightarrow> int" where
  "wait_exponential r attempt_number =
     (let exp = wait_exp_base r ^ (attempt_number - 1);
          result = wait_multiplier r * exp
      in max (max 0 (wait_min r)) (min result (wait_max r)))"

text \<open>
  \<^verbatim>\<open>retry_if_exception_type.__call__\<close>: on a failed outcome
  \<^verbatim>\<open>isinstance(exception, exception_types)\<close>, on a returned value \<open>False\<close>.
\<close>

definition retry_if_exception_type :: "retrying \<Rightarrow> exn + 'a \<Rightarrow> bool" where
  "retry_if_exception_type r outcome =
     (case outcome of Inl e \<Rightarrow> isinstance e (exception_types r) | Inr v \<Rightarrow> False)"

section \<open>The decorators of \<^verbatim>\<open>shared/retry_config.py\<close>\<close>

definition with_retry :: "int \<Rightarrow> int \<Rightarrow> int \<Rightarrow> int \<Rightarrow> retrying" where
  "with_retry max_attempts min_wait max_wait multiplier =
     \<lparr> max_attempt_number = max_attempts,
       wait_multiplier = multiplier,
       wait_min = min_wait,
       wait_max = max_wait,
       wait_exp_base = 2,
       exception_types =
         [RateLimitError, APIConnectionError, APITimeoutError, ConnectionError, TimeoutError],
       reraise = True \<rparr>"

definition api_retry :: retrying where
  "api_retry =
     \<lparr> max_attempt_number = 5,
       wait_multiplier = 1,
       wait_min = 1,
       wait_max = 60,
       wait_exp_base = 2,
       exception_types =
         [RateLimitError, APIConnectionError, APITimeoutError, ConnectionError, TimeoutError],
       reraise = True \<rparr>"

definition aggressive_retry :: retrying where
  "aggressive_retry =
     \<lparr> max_attempt_number = 10,
       wait_multiplier = 2,
       wait_min = 2,
       wait_max = 120,
       wait_exp_base = 2,
       exception_types =
         [RateLimitError, APIConnectionError, APITimeoutError, ConnectionError, TimeoutError],
       reraise = True \<rparr>"

definition conservative_retry :: retrying where
  "conservative_retry =
     \<lparr> max_attempt_number = 3,
       wait_multiplier = 1,
       wait_min = 1,
       wait_max = 30,
       wait_exp_base = 2,
       exception_types = [RateLimitError, APIConnectionError, APITimeoutError],
       reraise = True \<rparr>"

section \<open>The retry loop\<close>

text \<open>
  \<^verbatim>\<open>time.sleep\<close> raises \<^verbatim>\<open>OverflowError\<close> when the number of seconds does not fit
  the platform's timer: from about \<open>9.2e9\<close> seconds where it counts nanoseconds in
  64 bits, from about \<open>4.29e6\<close> seconds where it counts milliseconds in 32 bits. A wait
  of at most \<open>sleep_limit\<close> seconds is slept on either.
\<close>

definition sleep_limit :: int where
  "sleep_limit = 4000000"

text \<open>
  What a wrapped call does that can be observed from outside: \<open>Invoke k\<close> is the
  \<open>k\<close>-th invocation of the wrapped operation, \<open>Warn k w e\<close> the line that
  \<^verbatim>\<open>before_sleep_log(logger, logging.WARNING)\<close> writes after attempt \<open>k\<close> (the
  seconds it announces and the exception raised, \<open>None\<close> for a returned value), and
  \<open>Sleep k w\<close> the sleep of \<open>w\<close> seconds between attempt \<open>k\<close> and attempt \<open>k + 1\<close>.
\<close>

datatype event = Invoke nat | Warn nat int "exn option" | Sleep nat int

text \<open>What \<^verbatim>\<open>BaseRetrying.iter\<close> decides once an attempt has an outcome.\<close>

datatype 'a action = DoSleep int | Return 'a | Raise exn

definition retry_error :: exn where
  "retry_error = \<lparr> exn_class = RetryError, exn_args = [] \<rparr>"

text \<open>
  \<^verbatim>\<open>BaseRetrying.iter\<close> after an attempt (\<open>fut\<close> is its outcome, \<open>Inl\<close> an exception):
  \<^verbatim>\<open>is_explicit_retry = fut.failed and isinstance(fut.exception(), TryAgain)
  if not (is_explicit_retry or self.retry(retry_state)):
      return fut.result()
  if self.stop(retry_state):
      retry_exc = self.retry_error_cls(fut)
      if self.reraise:
          raise retry_exc.reraise()
      raise retry_exc from fut.exception()
  sleep = self.wait(retry_state)
  self.before_sleep(retry_state)
  return DoSleep(sleep)\<close>
  where \<^verbatim>\<open>fut.result()\<close> returns the value or raises the exception of the attempt, and
  \<^verbatim>\<open>RetryError.reraise\<close> raises the exception of the last attempt when it failed and
  the \<^verbatim>\<open>RetryError\<close> itself otherwise.
\<close>

definition iter :: "retrying \<Rightarrow> nat \<Rightarrow> exn + 'a \<Rightarrow> 'a action" where
  "iter r attempt_number fut =
     (let is_explicit_retry = (case fut of Inl e \<Rightarrow> isinstance e [TryAgain] | Inr v \<Rightarrow> False)
      in if \<not> (is_explicit_retry \<or> retry_if_exception_type r fut) then
           (case fut of Inl e \<Rightarrow> Raise e | Inr v \<Rightarrow> Return v)
         else if stop_after_attempt r attempt_number then
           (if reraise r then (case fut of Inl e \<Rightarrow> Raise e | Inr v \<Rightarrow> Raise retry_error)
            else Raise retry_error)
         else DoSleep (wait_exponential r attempt_number))"

definition outcome_exception :: "exn + 'a \<Rightarrow> exn option" where
  "outcome_exception fut = (case fut of Inl e \<Rightarrow> Some e | Inr v \<Rightarrow> None)"

text \<open>
  \<^verbatim>\<open>Retrying.__call__\<close>: the loop that invokes the operation, asks \<open>iter\<close>, and
  either returns, raises, or sleeps and increments the attempt number. The wrapped
  operation \<open>fn\<close> is a function of its own state \<open>'s\<close> (whatever it reads and changes),
  returning a value or raising. Tenacity writes the log line inside \<^verbatim>\<open>iter\<close>,
  just before it answers \<^verbatim>\<open>DoSleep\<close>; the trace records it at that point. The
  sleep itself is \<^verbatim>\<open>time.sleep\<close>, taken to return normally: it does for a wait
  of at most \<open>sleep_limit\<close> seconds, which covers every wait of the presets. The loop
  ends because \<open>iter\<close> sleeps only while the attempt number is below
  \<open>max_attempt_number\<close>.
\<close>

function call ::
  "retrying \<Rightarrow> ('s \<Rightarrow> (exn + 'a) \<times> 's) \<Rightarrow> nat \<Rightarrow> 's \<Rightarrow> event list
     \<Rightarrow> (exn + 'a) \<times> 's \<times> event list" where
  "call r fn attempt_number s trace =
     (case fn s of (fut, s') \<Rightarrow>
        (case iter r attempt_number fut of
           DoSleep w \<Rightarrow>
             call r fn (attempt_number + 1) s'
               (trace @ [Invoke attempt_number,
                         Warn attempt_number w (outcome_exception fut),
                         Sleep attempt_number w])
         | Return v \<Rightarrow> (Inr v, s', trace @ [Invoke attempt_number])
         | Raise e \<Rightarrow> (Inl e, s', trace @ [Invoke attempt_number])))"
  by pat_completeness auto
termination
  apply (relation "measure (\<lambda>(r, fn, n, s, tr). nat (max_attempt_number r - int n))")
   apply simp
  apply (auto simp: iter_def stop_after_attempt_def Let_def split: if_splits sum.splits)
  done

declare call.simps [simp del]

text \<open>
  The decorated function (\<^verbatim>\<open>wrapped_f\<close> of \<^verbatim>\<open>BaseRetrying.wraps\<close>): a fresh
  \<^verbatim>\<open>RetryCallState\<close>, whose attempt number is 1, and the loop.
\<close>

definition wrapped_f ::
  "retrying \<Rightarrow> ('s \<Rightarrow> (exn + 'a) \<times> 's) \<Rightarrow> 's \<Rightarrow> (exn + 'a) \<times> 's \<times> event list" where
  "wrapped_f r fn s = call r fn 1 s []"

definition result_of :: "(exn + 'a) \<times> 's \<times> event list \<Rightarrow> exn + 'a" where
  "result_of run = fst run"

definition trace_of :: "(exn + 'a) \<times> 's \<times> event list \<Rightarrow> event list" where
  "trace_of run = snd (snd run)"

text \<open>The attempts made, in order, and the sleeps, each with the attempt it follows.\<close>

fun invoked :: "event list \<Rightarrow> nat list" where
  "invoked [] = []"
| "invoked (Invoke k # tr) = k # invoked tr"
| "invoked (Warn k w e # tr) = invoked tr"
| "invoked (Sleep k w # tr) = invoked tr"

fun waits :: "event list \<Rightarrow> (nat \<times> int) list" where
  "waits [] = []"
| "waits (Invoke k # tr) = waits tr"
| "waits (Warn k w e # tr) = waits tr"
| "waits (Sleep k w # tr) = (k, w) # waits tr"

text \<open>An operation that raises the same exception at every call.\<close>

definition always_raises :: "exn \<Rightarrow> unit \<Rightarrow> (exn + unit) \<times> unit" where
  "always_raises e s = (Inl e, s)"


text \<open>
  An operation that keeps raising a retryable error: whatever its state, the call raises
  an exception that is an instance of one of the decorator's exception types.
\<close>

definition keeps_raising :: "retrying \<Rightarrow> ('s \<Rightarrow> (exn + 'a) \<times> 's) \<Rightarrow> bool" where
  "keeps_raising r fn = (\<forall>s. \<exists>e. fst (fn s) = Inl e \<and> isinstance e (exception_types r))"

text \<open>
  An operation whose every call is retried while attempts remain: each call raises an
  instance of one of the decorator's exception types or tenacity's \<^verbatim>\<open>TryAgain\<close>,
  the two cases in which \<open>iter\<close> does not hand the outcome back.
\<close>

definition always_retried :: "retrying \<Rightarrow> ('s \<Rightarrow> (exn + 'a) \<times> 's) \<Rightarrow> bool" where
  "always_retried r fn =
     (\<forall>s. \<exists>e. fst (fn s) = Inl e
        \<and> (isinstance e [TryAgain] \<or> isinstance e (exception_types r)))"

text \<open>Exceptions used as concrete inputs.\<close>

definition rate_limit_exceeded :: exn where
  "rate_limit_exceeded = \<lparr> exn_class = RateLimitError, exn_args = ''quota exceeded'' \<rparr>"

definition api_timed_out :: exn where
  "api_timed_out = \<lparr> exn_class = APITimeoutError, exn_args = ''timed out'' \<rparr>"

definition connection_lost :: exn where
  "connection_lost = \<lparr> exn_class = ConnectionError, exn_args = ''connection lost'' \<rparr>"

definition bad_value :: exn where
  "bad_value = \<lparr> exn_class = ValueError, exn_args = ''bad value'' \<rparr>"

definition try_again :: exn where
  "try_again = \<lparr> exn_class = TryAgain, exn_args = [] \<rparr>"

section \<open>The wait times as the specification words them\<close>

text \<open>
  The specification's formula for the wait between attempt \<open>k\<close> and attempt \<open>k + 1\<close>:
  \<^verbatim>\<open>min(max_wait, min_wait * multiplier^(k-1))\<close>, and the waits it predicts for a
  call that exhausts \<open>max_attempts\<close> attempts. These two definitions follow the
  specification, not the code; they are compared with \<open>wait_exponential\<close>.
\<close>

definition spec_wait :: "int \<Rightarrow> int \<Rightarrow> int \<Rightarrow> nat \<Rightarrow> int" where
  "spec_wait min_wait max_wait multiplier k = min max_wait (min_wait * multiplier ^ (k - 1))"

definition spec_waits :: "int \<Rightarrow> int \<Rightarrow> int \<Rightarrow> int \<Rightarrow> (nat \<times> int) list" where
  "spec_waits max_attempts min_wait max_wait multiplier =
     map (\<lambda>k. (k, spec_wait min_wait max_wait multiplier k)) [1..<nat max_attempts]"

text \<open>A sequence of waits is constant when every wait equals the first.\<close>

definition constant_wait :: "int list \<Rightarrow> bool" where
  "constant_wait ws = (case ws of [] \<Rightarrow> True | w # ws' \<Rightarrow> list_all (\<lambda>v. v = w) ws')"

section \<open>Loading the module: the provider's retry options\<close>

text \<open>
  The keyword arguments of a \<^verbatim>\<open>types.HttpRetryOptions(...)\<close> call of the module.
\<close>

record http_retry_options =
  attempts :: int
  exp_base :: int
  initial_delay :: int
  http_status_codes :: "int list"

text \<open>What \<^verbatim>\<open>from google.genai import types\<close> does: it binds the name or raises.\<close>

datatype import_outcome = Imported | ImportRaised exn

text \<open>The module's names that depend on the import.\<close>

record module_namespace =
  GOOGLE_ADK_AVAILABLE :: bool
  api_retry_options :: "http_retry_options option"
  aggressive_retry_options :: "http_retry_options option"
  conservative_retry_options :: "http_retry_options option"

text \<open>
  The module body. The import of tenacity on line 19 stands outside every
  \<^verbatim>\<open>try\<close>, so the module raises when tenacity is missing. The import of
  \<^verbatim>\<open>google.genai\<close> is wrapped in \<^verbatim>\<open>try ... except ImportError\<close>: an
  \<^verbatim>\<open>ImportError\<close> (or an instance of a subclass) selects the fallback, any other
  exception leaves the module. The decorators are built in between and cannot raise.
\<close>

definition load_module :: "bool \<Rightarrow> import_outcome \<Rightarrow> exn + module_namespace" where
  "load_module tenacity_importable genai =
     (if \<not> tenacity_importable then
        Inl \<lparr> exn_class = ModuleNotFoundError, exn_args = ''tenacity'' \<rparr>
      else
        (case genai of
           Imported \<Rightarrow>
             Inr \<lparr> GOOGLE_ADK_AVAILABLE = True,
                   api_retry_options =
                     Some \<lparr> attempts = 5, exp_base = 2, initial_delay = 1,
                            http_status_codes = [429, 500, 503, 504] \<rparr>,
                   aggressive_retry_options =
                     Some \<lparr> attempts = 10, exp_base = 2, initial_delay = 2,
                            http_status_codes = [429, 500, 503, 504] \<rparr>,
                   conservative_retry_options =
                     Some \<lparr> attempts = 3, exp_base = 2, initial_delay = 1,
                            http_status_codes = [429, 500, 503, 504] \<rparr> \<rparr>
         | ImportRaised e \<Rightarrow>
             if isinstance e [ImportError] then
               Inr \<lparr> GOOGLE_ADK_AVAILABLE = False,
                     api_retry_options = None,
                     aggressive_retry_options = None,
                     conservative_retry_options = None \<rparr>
             else Inl e))"

definition genai_not_installed :: exn where
  "genai_not_installed = \<lparr> exn_class = ModuleNotFoundError, exn_args = ''google'' \<rparr>"

section \<open>The environment check of \<^verbatim>\<open>day_one/test_env_vars.py\<close>\<close>

text \<open>
  Strings are byte strings (UTF-8): the check mark U+2713 and the ballot X U+2717 that
  start the lines are three bytes each.
\<close>

definition check_mark :: string where
  "check_mark = [CHR 0xE2, CHR 0x9C, CHR 0x93]"

definition ballot_x :: string where
  "ballot_x = [CHR 0xE2, CHR 0x9C, CHR 0x97]"

text \<open>
  Python's truth test on the result of \<^verbatim>\<open>os.getenv\<close>: \<^verbatim>\<open>None\<close> (the variable
  is missing) and the empty string are false. This is what the script calls "set".
\<close>

definition truthy :: "string option \<Rightarrow> bool" where
  "truthy v = (case v of None \<Rightarrow> False | Some k \<Rightarrow> k \<noteq> [])"

text \<open>
  The script, as a function of the environment that \<^verbatim>\<open>os.getenv\<close> reads once
  \<^verbatim>\<open>load_dotenv()\<close> has run; the result is the three lines it prints.
\<close>

definition test_env_vars :: "(string \<Rightarrow> string option) \<Rightarrow> string list" where
  "test_env_vars getenv =
     (let openai_key = getenv ''OPENAI_API_KEY'';
          anthropic_key = getenv ''ANTHROPIC_API_KEY'';
          gemini_key = getenv ''GEMINI_API_KEY''
      in [ if truthy openai_key then check_mark @ '' OPENAI_API_KEY is set''
           else ballot_x @ '' OPENAI_API_KEY is NOT set'',
           if truthy anthropic_key then
             check_mark @ '' ANTHROPIC_API_KEY is set: '' @ (case anthropic_key of Some k \<Rightarrow> k | None \<Rightarrow> [])
           else ballot_x @ '' ANTHROPIC_API_KEY is NOT set'',
           if truthy gemini_key then check_mark @ '' GEMINI_API_KEY is set''
           else ballot_x @ '' GEMINI_API_KEY is NOT set'' ])"

text \<open>Environments used as concrete inputs.\<close>

definition env_a :: "string \<Rightarrow> string option" where
  "env_a = [''OPENAI_API_KEY'' \<mapsto> ''sk-openai-1'', ''ANTHROPIC_API_KEY'' \<mapsto> ''sk-ant-1'']"

definition env_b :: "string \<Rightarrow> string option" where
  "env_b = [''OPENAI_API_KEY'' \<mapsto> ''sk-openai-1'', ''ANTHROPIC_API_KEY'' \<mapsto> ''sk-ant-2'']"

definition env_c :: "string \<Rightarrow> string option" where
  "env_c = [''OPENAI_API_KEY'' \<mapsto> ''sk-openai-2'', ''ANTHROPIC_API_KEY'' \<mapsto> ''sk-ant-1'',
            ''GEMINI_API_KEY'' \<mapsto> []]"

section \<open>Facts about the retry loop\<close>

lemma waits_append: "waits (a @ b) = waits a @ waits b"
  by (induction a rule: waits.induct) simp_all

lemma invoked_append: "invoked (a @ b) = invoked a @ invoked b"
  by (induction a rule: invoked.induct) simp_all

text \<open>One turn of the loop, for each decision of \<open>iter\<close>.\<close>

lemma call_retry:
  assumes "fst (fn s) = Inl e"
    and "isinstance e [TryAgain] \<or> isinstance e (exception_types r)"
    and "int n < max_attempt_number r"
  shows "call r fn n s tr =
    call r fn (Suc n) (snd (fn s))
      (tr @ [Invoke n, Warn n (wait_exponential r n) (Some e), Sleep n (wait_exponential r n)])"
  using assms
  by (subst call.simps)
    (auto simp: iter_def retry_if_exception_type_def stop_after_attempt_def
      outcome_exception_def split: prod.splits)

lemma call_stop:
  assumes "fst (fn s) = Inl e"
    and "isinstance e [TryAgain] \<or> isinstance e (exception_types r)"
    and "max_attempt_number r \<le> int n" and "reraise r"
  shows "call r fn n s tr = (Inl e, snd (fn s), tr @ [Invoke n])"
  using assms
  by (subst call.simps)
    (auto simp: iter_def retry_if_exception_type_def stop_after_attempt_def
      outcome_exception_def split: prod.splits)

lemma call_propagate:
  assumes "fst (fn s) = Inl e"
    and "\<not> isinstance e [TryAgain]" and "\<not> isinstance e (exception_types r)"
  shows "call r fn n s tr = (Inl e, snd (fn s), tr @ [Invoke n])"
  using assms
  by (subst call.simps)
    (auto simp: iter_def retry_if_exception_type_def stop_after_attempt_def
      outcome_exception_def split: prod.splits)

lemma call_return:
  assumes "fst (fn s) = Inr v"
  shows "call r fn n s tr = (Inr v, snd (fn s), tr @ [Invoke n])"
  using assms
  by (subst call.simps)
    (auto simp: iter_def retry_if_exception_type_def stop_after_attempt_def
      outcome_exception_def split: prod.splits)

text \<open>Whatever the operation does, the loop entered at attempt \<open>n\<close> invokes it.\<close>

lemma call_trace_starts:
  "\<exists>rest. trace_of (call r fn n s tr) = tr @ Invoke n # rest"
proof (induction r fn n s tr rule: call.induct)
  case (1 r fn n s tr)
  obtain fut s' where f: "fn s = (fut, s')" by (cases "fn s")
  show ?case
  proof (cases "iter r n fut")
    case (DoSleep w)
    from "1.IH"[OF f[symmetric] DoSleep] obtain rest where
      "trace_of (call r fn (n + 1) s'
         (tr @ [Invoke n, Warn n w (outcome_exception fut), Sleep n w]))
       = (tr @ [Invoke n, Warn n w (outcome_exception fut), Sleep n w]) @ Invoke (n + 1) # rest"
      by blast
    with f DoSleep show ?thesis
      by (subst call.simps) simp
  next
    case (Return v)
    with f show ?thesis by (subst call.simps) (simp add: trace_of_def)
  next
    case (Raise e)
    with f show ?thesis by (subst call.simps) (simp add: trace_of_def)
  qed
qed

text \<open>
  An operation whose every call is retried, under a decorator that re-raises:
  the sleeps, the attempts and the result of the loop started at attempt \<open>n\<close>, by
  induction on the number of attempts left.
\<close>

lemma waits_call:
  assumes "always_retried r fn" and "reraise r"
  shows "waits (trace_of (call r fn n s tr)) =
    waits tr @ map (\<lambda>k. (k, wait_exponential r k)) [n..<nat (max_attempt_number r)]"
proof (induction "nat (max_attempt_number r) - n" arbitrary: n s tr)
  case 0
  obtain e where e: "fst (fn s) = Inl e"
    and ex: "isinstance e [TryAgain] \<or> isinstance e (exception_types r)"
    using assms(1) unfolding always_retried_def by blast
  from 0 have "max_attempt_number r \<le> int n" by linarith
  with e ex assms(2) have "call r fn n s tr = (Inl e, snd (fn s), tr @ [Invoke n])"
    by (intro call_stop[where fn=fn and s=s])
  with 0 show ?case by (simp add: trace_of_def waits_append)
next
  case (Suc d)
  obtain e where e: "fst (fn s) = Inl e"
    and ex: "isinstance e [TryAgain] \<or> isinstance e (exception_types r)"
    using assms(1) unfolding always_retried_def by blast
  from Suc.hyps(2) have lt: "int n < max_attempt_number r" "n < nat (max_attempt_number r)"
    by linarith+
  have d: "d = nat (max_attempt_number r) - Suc n" using Suc.hyps(2) by linarith
  show ?case
    using Suc.hyps(1)[OF d] lt(2)
    by (simp add: call_retry[where fn=fn and s=s, OF e ex lt(1)] waits_append upt_conv_Cons)
qed

lemma invoked_call:
  assumes "always_retried r fn" and "reraise r"
  shows "invoked (trace_of (call r fn n s tr)) =
    invoked tr @ [n..<Suc (max n (nat (max_attempt_number r)))]"
proof (induction "nat (max_attempt_number r) - n" arbitrary: n s tr)
  case 0
  obtain e where e: "fst (fn s) = Inl e"
    and ex: "isinstance e [TryAgain] \<or> isinstance e (exception_types r)"
    using assms(1) unfolding always_retried_def by blast
  from 0 have le: "max_attempt_number r \<le> int n" "max n (nat (max_attempt_number r)) = n"
    by linarith+
  with e ex assms(2) have "call r fn n s tr = (Inl e, snd (fn s), tr @ [Invoke n])"
    by (intro call_stop[where fn=fn and s=s])
  with le show ?case by (simp add: trace_of_def invoked_append)
next
  case (Suc d)
  obtain e where e: "fst (fn s) = Inl e"
    and ex: "isinstance e [TryAgain] \<or> isinstance e (exception_types r)"
    using assms(1) unfolding always_retried_def by blast
  from Suc.hyps(2) have lt: "int n < max_attempt_number r" "n < nat (max_attempt_number r)"
    by linarith+
  have d: "d = nat (max_attempt_number r) - Suc n" using Suc.hyps(2) by linarith
  have m: "max n (nat (max_attempt_number r)) = nat (max_attempt_number r)"
    "max (Suc n) (nat (max_attempt_number r)) = nat (max_attempt_number r)"
    using lt by linarith+
  show ?case
    using Suc.hyps(1)[OF d] lt(2)
    by (simp add: call_retry[where fn=fn and s=s, OF e ex lt(1)] invoked_append m
        upt_conv_Cons)
qed

lemma result_call:
  assumes "always_retried r fn" and "reraise r"
  shows "result_of (call r fn n s tr) =
    fst (fn (((\<lambda>s. snd (fn s)) ^^ (nat (max_attempt_number r) - n)) s))"
proof (induction "nat (max_attempt_number r) - n" arbitrary: n s tr)
  case 0
  obtain e where e: "fst (fn s) = Inl e"
    and ex: "isinstance e [TryAgain] \<or> isinstance e (exception_types r)"
    using assms(1) unfolding always_retried_def by blast
  from 0 have le: "max_attempt_number r \<le> int n" by linarith+
  with e ex assms(2) have "call r fn n s tr = (Inl e, snd (fn s), tr @ [Invoke n])"
    by (intro call_stop[where fn=fn and s=s])
  with 0 e show ?case by (simp add: result_of_def)
next
  case (Suc d)
  obtain e where e: "fst (fn s) = Inl e"
    and ex: "isinstance e [TryAgain] \<or> isinstance e (exception_types r)"
    using assms(1) unfolding always_retried_def by blast
  from Suc.hyps(2) have lt: "int n < max_attempt_number r" "n < nat (max_attempt_number r)"
    by linarith+
  have d: "d = nat (max_attempt_number r) - Suc n" using Suc.hyps(2) by linarith
  have sw: "((\<lambda>s. snd (fn s)) ^^ d) (snd (fn s)) = snd (fn (((\<lambda>s. snd (fn s)) ^^ d) s))"
    using funpow_swap1[of "\<lambda>s. snd (fn s)" d s] by simp
  show ?case
    using Suc.hyps(1)[OF d, of "snd (fn s)"] sw
    by (simp add: call_retry[where fn=fn and s=s, OF e ex lt(1)] Suc.hyps(2)[symmetric]
        d[symmetric])
qed

lemma keeps_raising_always_retried: "keeps_raising r fn \<Longrightarrow> always_retried r fn"
  unfolding keeps_raising_def always_retried_def by blast

lemma keeps_raising_always_raises:
  "isinstance e (exception_types r) \<Longrightarrow> keeps_raising r (always_raises e)"
  by (simp add: keeps_raising_def always_raises_def)

section \<open>Invariants of the presets\<close>

text \<open>
  Claim C8. Each of the three named presets (standard \<open>api_retry\<close>, aggressive,
  conservative) has a non-empty tuple of retryable exception types, a minimum wait that
  does not exceed its maximum wait, and at least one attempt.
\<close>

theorem presets_invariants:
  "exception_types api_retry \<noteq> [] \<and> wait_min api_retry \<le> wait_max api_retry
     \<and> 1 \<le> max_attempt_number api_retry
   \<and> exception_types aggressive_retry \<noteq> [] \<and> wait_min aggressive_retry \<le> wait_max aggressive_retry
     \<and> 1 \<le> max_attempt_number aggressive_retry
   \<and> exception_types conservative_retry \<noteq> []
     \<and> wait_min conservative_retry \<le> wait_max conservative_retry
     \<and> 1 \<le> max_attempt_number conservative_retry"
  by (simp add: api_retry_def aggressive_retry_def conservative_retry_def)

section \<open>Wait times\<close>

text \<open>
  Claim C1, as the code has it. For a decorator built by
  \<open>with_retry max_attempts min_wait max_wait multiplier\<close> with integer arguments, where
  \<open>min_wait\<close> and \<open>max_wait\<close> are at least \<open>- 2 ^ 53\<close> and at most \<open>sleep_limit\<close>
  (so that tenacity's conversion to float keeps them and every wait can be slept),
  around an operation that keeps raising a retryable error, the wait between attempt
  \<open>k\<close> and attempt \<open>k + 1\<close> is
  \<open>max (max 0 min_wait) (min (multiplier * 2 ^ (k - 1)) max_wait)\<close>, for every \<open>k\<close> with
  \<open>1 \<le> k < max_attempts\<close>, and there is no other wait: the multiplier scales a power of
  two, and \<open>min_wait\<close> and \<open>max_wait\<close> clamp the product from below and from above.
\<close>

theorem with_retry_waits:
  assumes "keeps_raising (with_retry max_attempts min_wait max_wait multiplier) fn"
    and "- (2 ^ 53) \<le> min_wait" and "min_wait \<le> sleep_limit"
    and "- (2 ^ 53) \<le> max_wait" and "max_wait \<le> sleep_limit"
  shows "waits (trace_of (wrapped_f (with_retry max_attempts min_wait max_wait multiplier) fn s)) =
    map (\<lambda>k. (k, max (max 0 min_wait) (min (multiplier * 2 ^ (k - 1)) max_wait)))
      [1..<nat max_attempts]"
proof -
  have "reraise (with_retry max_attempts min_wait max_wait multiplier)"
    by (simp add: with_retry_def)
  from waits_call[OF keeps_raising_always_retried[OF assms(1)] this, of 1 s "[]"] show ?thesis
    by (simp add: wrapped_f_def wait_exponential_def with_retry_def)
qed

text \<open>
  An instance: three attempts, \<open>min_wait = 1\<close>, \<open>max_wait = 60\<close>, \<open>multiplier = 2\<close>,
  all within the bounds, and an operation that always raises \<open>RateLimitError\<close>. The
  waits are 2 and 4 seconds.
\<close>

theorem with_retry_waits_witness:
  "keeps_raising (with_retry 3 1 60 2) (always_raises rate_limit_exceeded)
   \<and> - (2 ^ 53) \<le> (1::int) \<and> (1::int) \<le> sleep_limit
   \<and> - (2 ^ 53) \<le> (60::int) \<and> (60::int) \<le> sleep_limit
   \<and> waits (trace_of (wrapped_f (with_retry 3 1 60 2) (always_raises rate_limit_exceeded) ()))
       = [(1, 2), (2, 4)]"
proof -
  have kr: "keeps_raising (with_retry 3 1 60 2) (always_raises rate_limit_exceeded)"
    by (rule keeps_raising_always_raises)
      (simp add: with_retry_def isinstance_def issubclass_def rate_limit_exceeded_def)
  have b: "- (2 ^ 53) \<le> (1::int)" "(1::int) \<le> sleep_limit"
    "- (2 ^ 53) \<le> (60::int)" "(60::int) \<le> sleep_limit"
    by (simp_all add: sleep_limit_def)
  have "[1..<nat 3] = [1, 2]" by (simp add: upt_conv_Cons)
  with with_retry_waits[OF kr b, of "()"] kr b show ?thesis by simp
qed

text \<open>
  Claim C1 as the specification states it fails on the same input: the specification's
  formula \<open>min max_wait (min_wait * multiplier ^ (k - 1))\<close> gives 1 and 2 seconds where
  the decorator waits 2 and 4.
\<close>

theorem with_retry_waits_differ_from_spec:
  "waits (trace_of (wrapped_f (with_retry 3 1 60 2) (always_raises rate_limit_exceeded) ()))
     = [(1, 2), (2, 4)]
   \<and> spec_waits 3 1 60 2 = [(1, 1), (2, 2)]
   \<and> waits (trace_of (wrapped_f (with_retry 3 1 60 2) (always_raises rate_limit_exceeded) ()))
     \<noteq> spec_waits 3 1 60 2"
proof -
  have kr: "keeps_raising (with_retry 3 1 60 2) (always_raises rate_limit_exceeded)"
    by (rule keeps_raising_always_raises)
      (simp add: with_retry_def isinstance_def issubclass_def rate_limit_exceeded_def)
  have rr: "reraise (with_retry 3 1 60 2)" by (simp add: with_retry_def)
  have u: "[1..<nat 3] = [1, 2]" by (simp add: upt_conv_Cons)
  have a: "waits (trace_of (wrapped_f (with_retry 3 1 60 2) (always_raises rate_limit_exceeded) ()))
     = [(1, 2), (2, 4)]"
    using waits_call[OF keeps_raising_always_retried[OF kr] rr, of 1 "()" "[]"] u
    by (simp add: wrapped_f_def wait_exponential_def with_retry_def)
  have b: "spec_waits 3 1 60 2 = [(1, 1), (2, 2)]"
    using u by (simp add: spec_waits_def spec_wait_def)
  show ?thesis unfolding a b by simp
qed

text \<open>
  Claim C3, as the code has it. Under the standard preset \<open>api_retry\<close> (multiplier 1,
  waits clamped to 1..60 seconds, 5 attempts) the wait doubles from one attempt to the
  next: an operation that keeps raising a retryable error waits 1, 2, 4 and 8 seconds
  after attempts 1, 2, 3 and 4.
\<close>

theorem api_retry_waits:
  assumes "keeps_raising api_retry fn"
  shows "waits (trace_of (wrapped_f api_retry fn s)) = [(1, 1), (2, 2), (3, 4), (4, 8)]"
proof -
  have rr: "reraise api_retry" by (simp add: api_retry_def)
  have u: "[1..<nat (max_attempt_number api_retry)] = [1, 2, 3, 4]"
    by (simp add: api_retry_def upt_conv_Cons)
  have w: "wait_exponential api_retry (Suc 0) = 1" "wait_exponential api_retry 2 = 2"
    "wait_exponential api_retry 3 = 4" "wait_exponential api_retry 4 = 8"
    by (simp_all add: wait_exponential_def api_retry_def)
  from waits_call[OF keeps_raising_always_retried[OF assms] rr, of 1 s "[]"] show ?thesis
    unfolding u by (simp add: wrapped_f_def w)
qed

text \<open>An instance: an operation that always raises \<open>ConnectionError\<close>.\<close>

theorem api_retry_waits_witness:
  "keeps_raising api_retry (always_raises connection_lost)
   \<and> waits (trace_of (wrapped_f api_retry (always_raises connection_lost) ()))
       = [(1, 1), (2, 2), (3, 4), (4, 8)]"
proof -
  have kr: "keeps_raising api_retry (always_raises connection_lost)"
    by (rule keeps_raising_always_raises)
      (simp add: api_retry_def isinstance_def issubclass_def connection_lost_def)
  with api_retry_waits[OF kr, of "()"] show ?thesis by simp
qed

text \<open>
  Claim C3 as the specification states it fails: under the standard preset the waits
  of an operation that always raises \<open>RateLimitError\<close> are not constant.
\<close>

theorem api_retry_waits_not_constant:
  "\<not> constant_wait
       (map snd (waits (trace_of (wrapped_f api_retry (always_raises rate_limit_exceeded) ()))))"
proof -
  have kr: "keeps_raising api_retry (always_raises rate_limit_exceeded)"
    by (rule keeps_raising_always_raises)
      (simp add: api_retry_def isinstance_def issubclass_def rate_limit_exceeded_def)
  have rr: "reraise api_retry" by (simp add: api_retry_def)
  have u: "[1..<nat (max_attempt_number api_retry)] = [1, 2, 3, 4]"
    by (simp add: api_retry_def upt_conv_Cons)
  have w: "wait_exponential api_retry (Suc 0) = 1" "wait_exponential api_retry 2 = 2"
    "wait_exponential api_retry 3 = 4" "wait_exponential api_retry 4 = 8"
    by (simp_all add: wait_exponential_def api_retry_def)
  have "waits (trace_of (wrapped_f api_retry (always_raises rate_limit_exceeded) ()))
     = [(1, 1), (2, 2), (3, 4), (4, 8)]"
    using waits_call[OF keeps_raising_always_retried[OF kr] rr, of 1 "()" "[]"] unfolding u by (simp add: wrapped_f_def w)
  then show ?thesis by (simp add: constant_wait_def)
qed

section \<open>Attempts and the error that reaches the caller\<close>

text \<open>
  Claim C4. Under the conservative preset, an operation that always raises
  \<open>APITimeoutError\<close> is invoked exactly three times (attempts 1, 2 and 3), and the
  caller receives the very exception that the third invocation raised, an
  \<open>APITimeoutError\<close>: it is neither wrapped nor replaced.
\<close>

theorem conservative_retry_exhausts:
  assumes "\<forall>s. \<exists>e. fst (fn s) = Inl e \<and> isinstance e [APITimeoutError]"
  shows "invoked (trace_of (wrapped_f conservative_retry fn s)) = [1, 2, 3]
    \<and> result_of (wrapped_f conservative_retry fn s) = fst (fn (snd (fn (snd (fn s)))))
    \<and> (\<exists>e. result_of (wrapped_f conservative_retry fn s) = Inl e
          \<and> isinstance e [APITimeoutError])"
proof -
  have kr: "keeps_raising conservative_retry fn"
    unfolding keeps_raising_def
  proof
    fix s
    from assms obtain e where "fst (fn s) = Inl e" "isinstance e [APITimeoutError]" by blast
    then show "\<exists>e. fst (fn s) = Inl e \<and> isinstance e (exception_types conservative_retry)"
      by (auto simp: conservative_retry_def isinstance_def)
  qed
  have rr: "reraise conservative_retry" by (simp add: conservative_retry_def)
  have m: "nat (max_attempt_number conservative_retry) = 3"
    by (simp add: conservative_retry_def)
  have i: "invoked (trace_of (wrapped_f conservative_retry fn s)) = [1, 2, 3]"
    using invoked_call[OF keeps_raising_always_retried[OF kr] rr, of 1 s "[]"] unfolding m
    by (simp add: wrapped_f_def upt_conv_Cons)
  have r: "result_of (wrapped_f conservative_retry fn s) = fst (fn (snd (fn (snd (fn s)))))"
    using result_call[OF keeps_raising_always_retried[OF kr] rr, of 1 s "[]"] unfolding m
    by (simp add: wrapped_f_def numeral_2_eq_2 funpow_swap1)
  from assms obtain e where "fst (fn (snd (fn (snd (fn s))))) = Inl e"
    "isinstance e [APITimeoutError]" by blast
  with i r show ?thesis by simp
qed

text \<open>An instance: the operation that raises the same \<open>APITimeoutError\<close> at every call.\<close>

theorem conservative_retry_exhausts_witness:
  "invoked (trace_of (wrapped_f conservative_retry (always_raises api_timed_out) ())) = [1, 2, 3]
   \<and> result_of (wrapped_f conservative_retry (always_raises api_timed_out) ()) = Inl api_timed_out"
proof -
  have "\<forall>s. \<exists>e. fst (always_raises api_timed_out s) = Inl e \<and> isinstance e [APITimeoutError]"
    by (simp add: always_raises_def isinstance_def issubclass_def api_timed_out_def)
  moreover have "\<And>x. fst (always_raises api_timed_out x) = Inl api_timed_out"
    by (simp add: always_raises_def)
  ultimately show ?thesis
    using conservative_retry_exhausts[of "always_raises api_timed_out" "()"] by simp
qed

text \<open>
  Claim C5, as the code has it. Under the aggressive preset, an operation whose first
  call raises an exception that is an instance of none of the preset's exception types,
  and that is not tenacity's \<^verbatim>\<open>TryAgain\<close>, is invoked exactly once, and that
  exception reaches the caller at once: no warning is logged and no sleep happens.
\<close>

theorem aggressive_retry_propagates:
  assumes "fst (fn s) = Inl e"
    and "\<not> isinstance e (exception_types aggressive_retry)"
    and "\<not> isinstance e [TryAgain]"
  shows "wrapped_f aggressive_retry fn s = (Inl e, snd (fn s), [Invoke 1])"
  using call_propagate[where fn=fn and s=s, OF assms(1) assms(3) assms(2), of 1 "[]"]
  by (simp add: wrapped_f_def)

text \<open>An instance: an operation that raises \<open>ValueError\<close>.\<close>

theorem aggressive_retry_propagates_witness:
  "wrapped_f aggressive_retry (always_raises bad_value) () = (Inl bad_value, (), [Invoke 1])"
proof -
  have a: "fst (always_raises bad_value ()) = Inl bad_value" by (simp add: always_raises_def)
  have b: "\<not> isinstance bad_value (exception_types aggressive_retry)"
    by (simp add: aggressive_retry_def isinstance_def issubclass_def bad_value_def)
  have c: "\<not> isinstance bad_value [TryAgain]"
    by (simp add: isinstance_def issubclass_def bad_value_def)
  from aggressive_retry_propagates[where fn="always_raises bad_value" and s="()", OF a b c]
  show ?thesis by simp
qed

text \<open>
  Claim C5 as the specification states it fails for \<^verbatim>\<open>TryAgain\<close>, which is not
  among the preset's exception types and which the retry loop retries all the same: an
  operation that always raises it is invoked ten times under the aggressive preset.
\<close>

theorem aggressive_retry_retries_try_again:
  "\<not> isinstance try_again (exception_types aggressive_retry)
   \<and> invoked (trace_of (wrapped_f aggressive_retry (always_raises try_again) ()))
       = [1, 2, 3, 4, 5, 6, 7, 8, 9, 10]"
proof -
  have ar: "always_retried aggressive_retry (always_raises try_again)"
    by (simp add: always_retried_def always_raises_def isinstance_def issubclass_def
        try_again_def)
  have rr: "reraise aggressive_retry" by (simp add: aggressive_retry_def)
  have m: "nat (max_attempt_number aggressive_retry) = 10"
    by (simp add: aggressive_retry_def)
  have "invoked (trace_of (wrapped_f aggressive_retry (always_raises try_again) ()))
       = [1, 2, 3, 4, 5, 6, 7, 8, 9, 10]"
    using invoked_call[OF ar rr, of 1 "()" "[]"] unfolding m
    by (simp add: wrapped_f_def upt_conv_Cons)
  moreover have "\<not> isinstance try_again (exception_types aggressive_retry)"
    by (simp add: aggressive_retry_def isinstance_def issubclass_def try_again_def)
  ultimately show ?thesis by simp
qed

text \<open>
  Claim C6. A decorator built by \<open>with_retry\<close> with \<open>max_attempts = 1\<close> invokes the
  operation exactly once, whatever the operation does (return, raise a retryable
  exception, raise any other exception); the outcome of that one invocation is the
  outcome of the call, and nothing is logged or slept.
\<close>

theorem with_retry_single_attempt:
  "wrapped_f (with_retry 1 min_wait max_wait multiplier) fn s = (fst (fn s), snd (fn s), [Invoke 1])"
  unfolding wrapped_f_def
  by (subst call.simps)
    (auto simp: iter_def retry_if_exception_type_def stop_after_attempt_def with_retry_def
      split: prod.splits sum.splits)


text \<open>
  Claim C2 as the specification states it fails for the conservative preset: neither
  \<open>ConnectionError\<close> nor \<open>TimeoutError\<close> is among its exception types, and an operation
  that raises \<open>ConnectionError\<close> is invoked once and not retried.
\<close>

theorem conservative_retry_omits_connection_error:
  "ConnectionError \<notin> set (exception_types conservative_retry)
   \<and> TimeoutError \<notin> set (exception_types conservative_retry)
   \<and> wrapped_f conservative_retry (always_raises connection_lost) ()
       = (Inl connection_lost, (), [Invoke 1])"
proof -
  have a: "fst (always_raises connection_lost ()) = Inl connection_lost"
    by (simp add: always_raises_def)
  have b: "\<not> isinstance connection_lost (exception_types conservative_retry)"
    by (simp add: conservative_retry_def isinstance_def issubclass_def connection_lost_def)
  have c: "\<not> isinstance connection_lost [TryAgain]"
    by (simp add: isinstance_def issubclass_def connection_lost_def)
  have "wrapped_f conservative_retry (always_raises connection_lost) ()
      = (Inl connection_lost, (), [Invoke 1])"
    using call_propagate[where fn="always_raises connection_lost" and s="()", OF a c b, of 1 "[]"]
    by (simp add: wrapped_f_def always_raises_def)
  then show ?thesis by (simp add: conservative_retry_def)
qed

text \<open>
  Claim C2, as the code has it. \<open>ConnectionError\<close> and \<open>TimeoutError\<close> are exception
  types of the standard and of the aggressive preset, and an operation whose first call
  raises one of them is retried there: the call logs the failure, sleeps (1 and 2
  seconds) and invokes the operation a second time, so its trace begins with attempt 1,
  the log line, the sleep and attempt 2. The conservative preset retries \<open>RateLimitError\<close>,
  \<open>APIConnectionError\<close> and \<open>APITimeoutError\<close> only: under it the same operation is
  invoked once and the exception reaches the caller.
\<close>

theorem presets_connection_timeout_errors:
  assumes "fst (fn s) = Inl e"
    and "exn_class e = ConnectionError \<or> exn_class e = TimeoutError"
  shows "exn_class e \<in> set (exception_types api_retry)
    \<and> take 4 (trace_of (wrapped_f api_retry fn s))
        = [Invoke 1, Warn 1 1 (Some e), Sleep 1 1, Invoke 2]
    \<and> exn_class e \<in> set (exception_types aggressive_retry)
    \<and> take 4 (trace_of (wrapped_f aggressive_retry fn s))
        = [Invoke 1, Warn 1 2 (Some e), Sleep 1 2, Invoke 2]
    \<and> set (exception_types conservative_retry)
        = {RateLimitError, APIConnectionError, APITimeoutError}
    \<and> wrapped_f conservative_retry fn s = (Inl e, snd (fn s), [Invoke 1])"
proof -
  have std: "isinstance e [TryAgain] \<or> isinstance e (exception_types api_retry)"
    using assms(2) by (auto simp: api_retry_def isinstance_def issubclass_def)
  have agg: "isinstance e [TryAgain] \<or> isinstance e (exception_types aggressive_retry)"
    using assms(2) by (auto simp: aggressive_retry_def isinstance_def issubclass_def)
  have con: "\<not> isinstance e (exception_types conservative_retry)"
    using assms(2) by (auto simp: conservative_retry_def isinstance_def issubclass_def)
  have ta: "\<not> isinstance e [TryAgain]"
    using assms(2) by (auto simp: isinstance_def issubclass_def)
  have s1: "wrapped_f api_retry fn s =
        call api_retry fn 2 (snd (fn s)) [Invoke 1, Warn 1 1 (Some e), Sleep 1 1]"
    using call_retry[where fn=fn and s=s, OF assms(1) std, of 1 "[]"]
    by (simp add: wrapped_f_def wait_exponential_def api_retry_def numeral_2_eq_2)
  obtain rest1 where "trace_of (wrapped_f api_retry fn s)
      = [Invoke 1, Warn 1 1 (Some e), Sleep 1 1] @ Invoke 2 # rest1"
    unfolding s1
    using call_trace_starts[of api_retry fn 2 "snd (fn s)"
        "[Invoke 1, Warn 1 1 (Some e), Sleep 1 1]"]
    by auto
  then have 1: "take 4 (trace_of (wrapped_f api_retry fn s))
        = [Invoke 1, Warn 1 1 (Some e), Sleep 1 1, Invoke 2]"
    by simp
  have s2: "wrapped_f aggressive_retry fn s =
        call aggressive_retry fn 2 (snd (fn s)) [Invoke 1, Warn 1 2 (Some e), Sleep 1 2]"
    using call_retry[where fn=fn and s=s, OF assms(1) agg, of 1 "[]"]
    by (simp add: wrapped_f_def wait_exponential_def aggressive_retry_def numeral_2_eq_2)
  obtain rest2 where "trace_of (wrapped_f aggressive_retry fn s)
      = [Invoke 1, Warn 1 2 (Some e), Sleep 1 2] @ Invoke 2 # rest2"
    unfolding s2
    using call_trace_starts[of aggressive_retry fn 2 "snd (fn s)"
        "[Invoke 1, Warn 1 2 (Some e), Sleep 1 2]"]
    by auto
  then have 2: "take 4 (trace_of (wrapped_f aggressive_retry fn s))
        = [Invoke 1, Warn 1 2 (Some e), Sleep 1 2, Invoke 2]"
    by simp
  have 3: "wrapped_f conservative_retry fn s = (Inl e, snd (fn s), [Invoke 1])"
    using call_propagate[where fn=fn and s=s, OF assms(1) ta con, of 1 "[]"]
    by (simp add: wrapped_f_def)
  have 4: "exn_class e \<in> set (exception_types api_retry)"
    "exn_class e \<in> set (exception_types aggressive_retry)"
    using assms(2) by (auto simp: api_retry_def aggressive_retry_def)
  have 5: "set (exception_types conservative_retry)
        = {RateLimitError, APIConnectionError, APITimeoutError}"
    by (simp add: conservative_retry_def)
  from 1 2 3 4 5 show ?thesis by blast
qed

text \<open>An instance: the operation that always raises \<open>ConnectionError\<close>.\<close>

theorem presets_connection_timeout_errors_witness:
  "take 4 (trace_of (wrapped_f api_retry (always_raises connection_lost) ()))
     = [Invoke 1, Warn 1 1 (Some connection_lost), Sleep 1 1, Invoke 2]
   \<and> take 4 (trace_of (wrapped_f aggressive_retry (always_raises connection_lost) ()))
     = [Invoke 1, Warn 1 2 (Some connection_lost), Sleep 1 2, Invoke 2]
   \<and> wrapped_f conservative_retry (always_raises connection_lost) ()
       = (Inl connection_lost, (), [Invoke 1])"
proof -
  have a: "fst (always_raises connection_lost ()) = Inl connection_lost"
    by (simp add: always_raises_def)
  have b: "exn_class connection_lost = ConnectionError \<or> exn_class connection_lost = TimeoutError"
    by (simp add: connection_lost_def)
  from presets_connection_timeout_errors[where fn="always_raises connection_lost" and s="()",
      OF a b]
  show ?thesis by simp
qed

section \<open>The provider's retry options\<close>

text \<open>
  Claim C7. When \<^verbatim>\<open>from google.genai import types\<close> raises an
  \<^verbatim>\<open>ImportError\<close> (the library is not importable), the module body completes
  without raising, \<open>GOOGLE_ADK_AVAILABLE\<close> is false and the three option names
  \<open>api_retry_options\<close>, \<open>aggressive_retry_options\<close> and \<open>conservative_retry_options\<close>
  are bound to \<open>None\<close>. Tenacity, which the module imports unconditionally, is taken to be
  installed.
\<close>

theorem provider_options_absent:
  assumes "isinstance e [ImportError]"
  shows "load_module True (ImportRaised e) =
    Inr \<lparr> GOOGLE_ADK_AVAILABLE = False, api_retry_options = None,
          aggressive_retry_options = None, conservative_retry_options = None \<rparr>"
  using assms by (simp add: load_module_def)

text \<open>An instance: the import raises \<^verbatim>\<open>ModuleNotFoundError\<close>.\<close>

theorem provider_options_absent_witness:
  "isinstance genai_not_installed [ImportError]
   \<and> load_module True (ImportRaised genai_not_installed) =
    Inr \<lparr> GOOGLE_ADK_AVAILABLE = False, api_retry_options = None,
          aggressive_retry_options = None, conservative_retry_options = None \<rparr>"
proof -
  have "isinstance genai_not_installed [ImportError]"
    by (simp add: isinstance_def issubclass_def genai_not_installed_def)
  with provider_options_absent[of genai_not_installed] show ?thesis by simp
qed

text \<open>
  Claim C9. When the provider library is importable, the three option objects exist,
  carry the same retryable HTTP status codes 429, 500, 503 and 504 and the same
  exponential base 2, and differ from one another in \<open>attempts\<close> and \<open>initial_delay\<close>
  only.
\<close>

theorem provider_options_shared_fields:
  "\<exists>ns a b c. load_module True Imported = Inr ns
     \<and> api_retry_options ns = Some a
     \<and> aggressive_retry_options ns = Some b
     \<and> conservative_retry_options ns = Some c
     \<and> set (http_status_codes a) = {429, 500, 503, 504}
     \<and> http_status_codes b = http_status_codes a
     \<and> http_status_codes c = http_status_codes a
     \<and> exp_base a = 2 \<and> exp_base b = 2 \<and> exp_base c = 2
     \<and> b = a\<lparr>attempts := attempts b, initial_delay := initial_delay b\<rparr>
     \<and> c = a\<lparr>attempts := attempts c, initial_delay := initial_delay c\<rparr>"
  by (simp add: load_module_def)

section \<open>The environment check\<close>

text \<open>
  Claim C10. The output of the environment check reveals \<open>ANTHROPIC_API_KEY\<close>: two
  runs whose non-empty values of it differ print different output, and the second line
  ends with the whole value. For \<open>OPENAI_API_KEY\<close> and \<open>GEMINI_API_KEY\<close> the output
  depends only on whether the key is set, in the script's sense (present and not empty):
  two runs that agree on that and on \<open>ANTHROPIC_API_KEY\<close> print the same output.
\<close>

theorem env_check_output:
  "(truthy (env1 ''ANTHROPIC_API_KEY'') \<and> truthy (env2 ''ANTHROPIC_API_KEY'')
      \<and> env1 ''ANTHROPIC_API_KEY'' \<noteq> env2 ''ANTHROPIC_API_KEY''
      \<longrightarrow> test_env_vars env1 \<noteq> test_env_vars env2)
   \<and> (\<forall>k. env1 ''ANTHROPIC_API_KEY'' = Some k \<and> k \<noteq> []
      \<longrightarrow> test_env_vars env1 ! 1 = check_mark @ '' ANTHROPIC_API_KEY is set: '' @ k)
   \<and> (env1 ''ANTHROPIC_API_KEY'' = env2 ''ANTHROPIC_API_KEY''
      \<and> truthy (env1 ''OPENAI_API_KEY'') = truthy (env2 ''OPENAI_API_KEY'')
      \<and> truthy (env1 ''GEMINI_API_KEY'') = truthy (env2 ''GEMINI_API_KEY'')
      \<longrightarrow> test_env_vars env1 = test_env_vars env2)"
  by (auto simp: test_env_vars_def truthy_def Let_def split: option.splits)

text \<open>
  An instance: \<open>env_a\<close> and \<open>env_b\<close> differ in the Anthropic key only, and the outputs
  differ; \<open>env_a\<close> and \<open>env_c\<close> differ in the value of the OpenAI key and in an empty
  against a missing Gemini key, and the outputs agree.
\<close>

theorem env_check_output_witness:
  "test_env_vars env_a \<noteq> test_env_vars env_b
   \<and> test_env_vars env_a ! 1 = check_mark @ '' ANTHROPIC_API_KEY is set: sk-ant-1''
   \<and> test_env_vars env_a = test_env_vars env_c"
proof -
  have a: "env_a ''ANTHROPIC_API_KEY'' = Some ''sk-ant-1''" "env_a ''OPENAI_API_KEY'' = Some ''sk-openai-1''"
    "env_a ''GEMINI_API_KEY'' = None"
    by (simp_all add: env_a_def)
  have b: "env_b ''ANTHROPIC_API_KEY'' = Some ''sk-ant-2''"
    by (simp_all add: env_b_def)
  have c: "env_c ''ANTHROPIC_API_KEY'' = Some ''sk-ant-1''" "env_c ''OPENAI_API_KEY'' = Some ''sk-openai-2''"
    "env_c ''GEMINI_API_KEY'' = Some []"
    by (simp_all add: env_c_def)
  from env_check_output[of env_a env_b] env_check_output[of env_a env_c]
  show ?thesis by (simp add: a b c truthy_def)
qed

end
